theory Spec2Isabelle
  imports Complex_Main
begin

section \<open>Numbers: float64 values as numpy sees them\<close>

text \<open>
  The elements of a numpy float64 array are finite numbers, the two infinities and NaN.
  A finite double is modelled by the real number it denotes: rounding, overflow of a
  finite operation to an infinity and the sign of zero are outside the model. The special
  values follow IEEE 754: NaN is absorbing, \<open>inf - inf\<close>, \<open>0 * inf\<close>, \<open>0 / 0\<close> and
  \<open>inf / inf\<close> are NaN, a non-zero finite number divided by zero is an infinity, and
  every comparison with NaN is false. The zero of the model is the positive zero (the
  only zeros \<open>_mad\<close> divides by come out of \<open>np.abs\<close> and \<open>np.nanmedian\<close> of
  absolute values).
\<close>

datatype fl = Fin real | PInf | NInf | NaN

fun fl_neg :: "fl \<Rightarrow> fl" where
  "fl_neg (Fin a) = Fin (- a)"
| "fl_neg PInf = NInf"
| "fl_neg NInf = PInf"
| "fl_neg NaN = NaN"

fun fl_add :: "fl \<Rightarrow> fl \<Rightarrow> fl" where
  "fl_add NaN y = NaN"
| "fl_add x NaN = NaN"
| "fl_add PInf NInf = NaN"
| "fl_add NInf PInf = NaN"
| "fl_add PInf y = PInf"
| "fl_add x PInf = PInf"
| "fl_add NInf y = NInf"
| "fl_add x NInf = NInf"
| "fl_add (Fin a) (Fin b) = Fin (a + b)"

definition fl_sub :: "fl \<Rightarrow> fl \<Rightarrow> fl" where
  "fl_sub x y = fl_add x (fl_neg y)"

fun fl_mul :: "fl \<Rightarrow> fl \<Rightarrow> fl" where
  "fl_mul NaN y = NaN"
| "fl_mul x NaN = NaN"
| "fl_mul (Fin a) (Fin b) = Fin (a * b)"
| "fl_mul (Fin a) PInf = (if a = 0 then NaN else if 0 < a then PInf else NInf)"
| "fl_mul (Fin a) NInf = (if a = 0 then NaN else if 0 < a then NInf else PInf)"
| "fl_mul PInf (Fin b) = (if b = 0 then NaN else if 0 < b then PInf else NInf)"
| "fl_mul NInf (Fin b) = (if b = 0 then NaN else if 0 < b then NInf else PInf)"
| "fl_mul PInf PInf = PInf"
| "fl_mul NInf NInf = PInf"
| "fl_mul PInf NInf = NInf"
| "fl_mul NInf PInf = NInf"

fun fl_div :: "fl \<Rightarrow> fl \<Rightarrow> fl" where
  "fl_div NaN y = NaN"
| "fl_div x NaN = NaN"
| "fl_div (Fin a) (Fin b) =
     (if b = 0 then (if a = 0 then NaN else if 0 < a then PInf else NInf)
      else Fin (a / b))"
| "fl_div (Fin a) PInf = Fin 0"
| "fl_div (Fin a) NInf = Fin 0"
| "fl_div PInf (Fin b) = (if b < 0 then NInf else PInf)"
| "fl_div NInf (Fin b) = (if b < 0 then PInf else NInf)"
| "fl_div PInf PInf = NaN"
| "fl_div PInf NInf = NaN"
| "fl_div NInf PInf = NaN"
| "fl_div NInf NInf = NaN"

fun fl_abs :: "fl \<Rightarrow> fl" where
  "fl_abs (Fin a) = Fin \<bar>a\<bar>"
| "fl_abs PInf = PInf"
| "fl_abs NInf = PInf"
| "fl_abs NaN = NaN"

fun fl_sqrt :: "fl \<Rightarrow> fl" where
  "fl_sqrt (Fin a) = (if a < 0 then NaN else Fin (sqrt a))"
| "fl_sqrt PInf = PInf"
| "fl_sqrt NInf = NaN"
| "fl_sqrt NaN = NaN"

text \<open>\<open>fl_less x y\<close> is the comparison \<open>x < y\<close>; it is false as soon as one side is NaN.\<close>

fun fl_less :: "fl \<Rightarrow> fl \<Rightarrow> bool" where
  "fl_less NaN y = False"
| "fl_less x NaN = False"
| "fl_less (Fin a) (Fin b) = (a < b)"
| "fl_less x NInf = False"
| "fl_less PInf y = False"
| "fl_less NInf y = True"
| "fl_less x PInf = True"

definition fl_gt :: "fl \<Rightarrow> fl \<Rightarrow> bool" where
  "fl_gt x y = fl_less y x"

definition fl_le :: "fl \<Rightarrow> fl \<Rightarrow> bool" where
  "fl_le x y = (fl_less x y \<or> x = y)"

definition isnan :: "fl \<Rightarrow> bool" where
  "isnan x = (x = NaN)"

text \<open>The largest finite float64, \<open>np.finfo(np.float64).max\<close>.\<close>

definition max_float :: real where
  "max_float = (2 - 1 / 2 ^ 52) * 2 ^ 1023"

text \<open>
  \<open>np.nan_to_num(x)\<close> with its default arguments (\<open>nan=0.0, posinf=None, neginf=None\<close>):
  NaN becomes zero, positive infinity the largest finite float64 and negative infinity
  the most negative one; finite entries are kept.
\<close>

fun nan_to_num :: "fl \<Rightarrow> fl" where
  "nan_to_num NaN = Fin 0"
| "nan_to_num PInf = Fin max_float"
| "nan_to_num NInf = Fin (- max_float)"
| "nan_to_num (Fin a) = Fin a"

subsection \<open>Medians and moments that ignore NaN\<close>

text \<open>
  \<open>np.median\<close> of a NaN-free array selects the middle element of the sorted data, or
  the mean of the two middle elements when the size is even (numpy adds the two and
  divides by their count). Sorting is by insertion; on a total order the sorted list
  does not depend on the algorithm.
\<close>

fun insort_fl :: "fl \<Rightarrow> fl list \<Rightarrow> fl list" where
  "insort_fl x [] = [x]"
| "insort_fl x (y # ys) = (if fl_le x y then x # y # ys else y # insort_fl x ys)"

fun sort_fl :: "fl list \<Rightarrow> fl list" where
  "sort_fl [] = []"
| "sort_fl (x # xs) = insort_fl x (sort_fl xs)"

definition median :: "fl list \<Rightarrow> fl" where
  "median xs =
     (let s = sort_fl xs; n = length s
      in if n mod 2 = 1 then s ! (n div 2)
         else fl_div (fl_add (s ! (n div 2 - 1)) (s ! (n div 2))) (Fin 2))"

text \<open>
  \<open>np.nanmedian\<close> over the whole array: the NaN entries are removed; when nothing is
  left the result is NaN (numpy warns about the all-NaN slice), otherwise it is the
  median of the rest.
\<close>

definition nanmedian :: "fl list \<Rightarrow> fl" where
  "nanmedian xs =
     (let ys = filter (\<lambda>x. \<not> isnan x) xs
      in if ys = [] then NaN else median ys)"

definition fl_sum :: "fl list \<Rightarrow> fl" where
  "fl_sum xs = foldl fl_add (Fin 0) xs"

definition nanmean :: "fl list \<Rightarrow> fl" where
  "nanmean xs =
     (let ys = filter (\<lambda>x. \<not> isnan x) xs
      in if ys = [] then NaN else fl_div (fl_sum ys) (Fin (real (length ys))))"

definition nanstd :: "fl list \<Rightarrow> fl" where
  "nanstd xs =
     (let ys = filter (\<lambda>x. \<not> isnan x) xs
      in if ys = [] then NaN
         else let avg = fl_div (fl_sum ys) (Fin (real (length ys)));
                  sq = map (\<lambda>y. fl_mul (fl_sub y avg) (fl_sub y avg)) ys
              in fl_sqrt (fl_div (fl_sum sq) (Fin (real (length ys)))))"

section \<open>Arrays, errors and the detector\<close>

text \<open>
  A numpy array is its shape and its elements in row-major order. The elements are
  float64 values, so an input that is not numeric is excluded by the type.
\<close>

record ndarray =
  shape :: "nat list"
  data :: "fl list"

text \<open>An \<open>n\<close>-by-1 column, a flat array of \<open>n\<close> items, and a matrix given by its rows.\<close>

definition column :: "fl list \<Rightarrow> ndarray" where
  "column xs = \<lparr>shape = [length xs, 1], data = xs\<rparr>"

definition flat :: "fl list \<Rightarrow> ndarray" where
  "flat xs = \<lparr>shape = [length xs], data = xs\<rparr>"

definition matrix :: "nat \<Rightarrow> fl list list \<Rightarrow> ndarray" where
  "matrix k rows = \<lparr>shape = [length rows, k], data = concat rows\<rparr>"

datatype error =
    TypeError
  | ValidationError
  | IndexError
  | ValueError string
  | AttributeError string

text \<open>
  An attribute of a Python object is not there until it is assigned; once assigned it
  holds \<open>None\<close> or a value. Reading an attribute that is not there raises AttributeError.
\<close>

datatype 'a attribute = Unbound | NoneValue | Value 'a

text \<open>
  The fitted attributes of the class end in an underscore (\<open>median_\<close>,
  \<open>labels_\<close>); here they end in \<open>_fit\<close>. \<open>_mu\<close> and \<open>_sigma\<close> are \<open>mu\<close> and
  \<open>sigma\<close>.
\<close>

record detector =
  threshold :: fl
  contamination :: fl
  threshold_fit :: "fl option"
  median_fit :: "fl attribute"
  median_diff_fit :: "fl attribute"
  decision_scores_fit :: "fl list option"
  labels_fit :: "nat list option"
  mu :: "fl option"
  sigma :: "fl option"

text \<open>
  Modelled from the spec: \<open>check_array\<close> is the external input validator (scikit-learn),
  called with \<open>ensure_2d=False\<close> and \<open>force_all_finite=False\<close>. It accepts a
  one-dimensional sequence or a two-dimensional array, lets NaN and the infinities
  through unchanged and raises a validation error for malformed input: an array of
  another rank, one with no sample or no feature, or one whose elements do not fill
  its shape.
\<close>

definition check_array :: "ndarray \<Rightarrow> error + ndarray" where
  "check_array X =
     (if (length (shape X) = 1 \<or> length (shape X) = 2) \<and> 0 \<notin> set (shape X)
         \<and> length (data X) = prod_list (shape X)
      then Inr X else Inl ValidationError)"

text \<open>\<open>'{}'.format(n)\<close> for a non-negative integer: its decimal digits.\<close>

fun str_nat :: "nat \<Rightarrow> string" where
  "str_nat n =
     (if n < 10 then [''0123456789'' ! n]
      else str_nat (n div 10) @ [''0123456789'' ! (n mod 10)])"

definition dim_message :: "nat \<Rightarrow> string" where
  "dim_message k =
     ''MAD algorithm is just for univariate data. Got Data with '' @ str_nat k
       @ '' Dimensions.''"

text \<open>
  \<open>_check_dim\<close> reads \<open>X.shape[1]\<close>: indexing the shape tuple of an array with fewer
  than two axes raises IndexError.
\<close>

definition check_dim :: "ndarray \<Rightarrow> error + unit" where
  "check_dim X =
     (case shape X of
        n # k # rest \<Rightarrow> if k \<noteq> 1 then Inl (ValueError (dim_message k)) else Inr ()
      | _ \<Rightarrow> Inl IndexError)"

text \<open>
  Modelled from the spec: \<open>BaseDetector.__init__\<close> is not under src/; the framework
  supplies the contamination slot, which is stored. \<open>MAD.__init__\<close> then checks that
  the threshold is a float or an int and stores it; no other attribute is assigned.
\<close>

datatype pyobj = PyFloat fl | PyInt int | PyOther

definition base_init :: "fl \<Rightarrow> fl \<Rightarrow> detector" where
  "base_init t c =
     \<lparr>threshold = t, contamination = c, threshold_fit = None, median_fit = Unbound,
      median_diff_fit = Unbound, decision_scores_fit = None, labels_fit = None,
      mu = None, sigma = None\<rparr>"

definition init :: "pyobj \<Rightarrow> fl \<Rightarrow> error + detector" where
  "init thr c =
     (case thr of
        PyFloat t \<Rightarrow> Inr (base_init t c)
      | PyInt i \<Rightarrow> Inr (base_init (Fin (real_of_int i)) c)
      | PyOther \<Rightarrow> Inl TypeError)"

text \<open>
  Modelled from the spec: \<open>BaseDetector._set_n_classes\<close> is not under src/; it is the
  framework's class-count tracker, called with the ignored label argument, and touches
  none of the attributes of the detector modelled here.
\<close>

definition set_n_classes :: "detector \<Rightarrow> detector" where
  "set_n_classes s = s"

text \<open>
  \<open>fresh if self.attr is None else self.attr\<close>: the test reads the attribute first, so
  an attribute that is not there raises before anything is computed.
\<close>

fun cached :: "string \<Rightarrow> fl attribute \<Rightarrow> fl \<Rightarrow> error + fl" where
  "cached nm Unbound fresh = Inl (AttributeError nm)"
| "cached nm NoneValue fresh = Inr fresh"
| "cached nm (Value v) fresh = Inr v"

text \<open>\<open>_mad\<close>: the modified z-scores, with the two statistics cached on the detector.\<close>

definition mad :: "ndarray \<Rightarrow> detector \<Rightarrow> (error + fl list) \<times> detector" where
  "mad X s =
     (let obs = data X
      in (case cached ''median_'' (median_fit s) (nanmedian obs) of
            Inl e \<Rightarrow> (Inl e, s)
          | Inr m \<Rightarrow>
              (let s1 = s\<lparr>median_fit := Value m\<rparr>;
                   diff = map (\<lambda>x. fl_abs (fl_sub x m)) obs
               in (case cached ''median_diff_'' (median_diff_fit s1) (nanmedian diff) of
                     Inl e \<Rightarrow> (Inl e, s1)
                   | Inr d \<Rightarrow>
                       (Inr (map (\<lambda>v. nan_to_num (fl_div (fl_mul (Fin 0.6745) v) d)) diff),
                        s1\<lparr>median_diff_fit := Value d\<rparr>)))))"

definition decision_function :: "ndarray \<Rightarrow> detector \<Rightarrow> (error + fl list) \<times> detector" where
  "decision_function X s =
     (case check_array X of
        Inl e \<Rightarrow> (Inl e, s)
      | Inr X1 \<Rightarrow>
          (case check_dim X1 of
             Inl e \<Rightarrow> (Inl e, s)
           | Inr u \<Rightarrow> mad X1 s))"

definition process_decision_scores :: "detector \<Rightarrow> (error + unit) \<times> detector" where
  "process_decision_scores s =
     (case decision_scores_fit s of
        None \<Rightarrow> (Inl (AttributeError ''decision_scores_''), s)
      | Some sc \<Rightarrow>
          (Inr (),
           s\<lparr>labels_fit := Some (map (\<lambda>x. if fl_gt x (threshold s) then 1 else 0) sc),
             mu := Some (nanmean sc),
             sigma := Some (nanstd sc)\<rparr>))"

definition fit :: "ndarray \<Rightarrow> detector \<Rightarrow> (error + unit) \<times> detector" where
  "fit X s =
     (case check_array X of
        Inl e \<Rightarrow> (Inl e, s)
      | Inr X1 \<Rightarrow>
          (case check_dim X1 of
             Inl e \<Rightarrow> (Inl e, s)
           | Inr u \<Rightarrow>
               (let s1 = set_n_classes s;
                    s2 = s1\<lparr>threshold_fit := Some (threshold s1)\<rparr>;
                    s3 = s2\<lparr>median_fit := NoneValue\<rparr>;
                    s4 = s3\<lparr>median_diff_fit := NoneValue\<rparr>
                in (case decision_function X1 s4 of
                      (Inl e, s5) \<Rightarrow> (Inl e, s5)
                    | (Inr sc, s5) \<Rightarrow>
                        process_decision_scores (s5\<lparr>decision_scores_fit := Some sc\<rparr>)))))"

text \<open>
  The detectors a caller can hold: a freshly constructed one, and whatever \<open>fit\<close> and
  \<open>decision_function\<close> leave behind, whether they return or raise.
\<close>

inductive reachable :: "detector \<Rightarrow> bool" where
  r_init: "init thr c = Inr s \<Longrightarrow> reachable s"
| r_fit: "reachable s \<Longrightarrow> reachable (snd (fit X s))"
| r_score: "reachable s \<Longrightarrow> reachable (snd (decision_function X s))"

section \<open>Notions used to state the properties\<close>

text \<open>
  The specification's words for the statistic: the absolute deviations of a column
  from a centre, and the modified z-score \<open>0.6745 * |x - median| / MAD\<close> before
  any replacement of NaN and infinities.
\<close>

definition abs_dev :: "fl \<Rightarrow> fl list \<Rightarrow> fl list" where
  "abs_dev m xs = map (\<lambda>x. fl_abs (fl_sub x m)) xs"

definition modified_z :: "fl \<Rightarrow> fl \<Rightarrow> fl \<Rightarrow> fl" where
  "modified_z m d x = fl_div (fl_mul (Fin 0.6745) (fl_abs (fl_sub x m))) d"

text \<open>The scores a fit of the column \<open>xs\<close> is expected to store.\<close>

definition fitted_scores :: "fl list \<Rightarrow> fl list" where
  "fitted_scores xs =
     (let m = nanmedian xs; d = nanmedian (abs_dev m xs)
      in map (\<lambda>x. nan_to_num (modified_z m d x)) xs)"

text \<open>A finite number that is not negative; a value that is not negative, NaN included.\<close>

definition fin_nonneg :: "fl \<Rightarrow> bool" where
  "fin_nonneg v = (case v of Fin r \<Rightarrow> 0 \<le> r | PInf \<Rightarrow> False | NInf \<Rightarrow> False | NaN \<Rightarrow> False)"

definition nonneg_or_nan :: "fl \<Rightarrow> bool" where
  "nonneg_or_nan v = (case v of Fin r \<Rightarrow> 0 \<le> r | PInf \<Rightarrow> True | NInf \<Rightarrow> False | NaN \<Rightarrow> True)"

text \<open>The invariant of the cache: a cached deviation is never negative.\<close>

definition cache_ok :: "detector \<Rightarrow> bool" where
  "cache_ok s =
     (case median_diff_fit s of
        Unbound \<Rightarrow> True | NoneValue \<Rightarrow> True | Value d \<Rightarrow> nonneg_or_nan d)"

text \<open>Reading a decimal numeral back, to say what a message reports.\<close>

definition digit_val :: "char \<Rightarrow> nat" where
  "digit_val c = length (takeWhile (\<lambda>d. d \<noteq> c) ''0123456789'')"

definition dec_value :: "string \<Rightarrow> nat" where
  "dec_value cs = foldl (\<lambda>a c. 10 * a + digit_val c) 0 cs"

section \<open>Sorting and the median\<close>

lemma set_insort_fl: "set (insort_fl x xs) = insert x (set xs)"
  by (induction xs) auto

lemma length_insort_fl: "length (insort_fl x xs) = Suc (length xs)"
  by (induction xs) auto

lemma set_sort_fl: "set (sort_fl xs) = set xs"
  by (induction xs) (auto simp: set_insort_fl)

lemma length_sort_fl: "length (sort_fl xs) = length xs"
  by (induction xs) (auto simp: length_insort_fl)


section \<open>Validation of a single column\<close>

lemma check_array_column: "xs \<noteq> [] \<Longrightarrow> check_array (column xs) = Inr (column xs)"
  by (simp add: check_array_def column_def)

lemma check_dim_column: "check_dim (column xs) = Inr ()"
  by (simp add: check_dim_def column_def)

text \<open>The inputs that pass both checks are exactly the non-empty columns.\<close>

lemma single_column_iff:
  "(check_array X = Inr X' \<and> check_dim X' = Inr ()) \<longleftrightarrow>
     (X' = X \<and> data X \<noteq> [] \<and> X = column (data X))"
  by (cases X)
    (auto simp: check_array_def check_dim_def column_def split: list.splits if_splits)

section \<open>The scoring routine, case by case\<close>

lemma mad_fresh:
  assumes "median_fit s = NoneValue" and "median_diff_fit s = NoneValue"
  shows "mad X s =
    (Inr (map (\<lambda>x. nan_to_num (modified_z (nanmedian (data X))
                 (nanmedian (abs_dev (nanmedian (data X)) (data X))) x)) (data X)),
     s\<lparr>median_fit := Value (nanmedian (data X)),
       median_diff_fit := Value (nanmedian (abs_dev (nanmedian (data X)) (data X)))\<rparr>)"
  using assms by (simp add: mad_def Let_def modified_z_def abs_dev_def o_def)

lemma mad_cached:
  assumes "median_fit s = Value m" and "median_diff_fit s = Value d"
  shows "mad X s = (Inr (map (\<lambda>x. nan_to_num (modified_z m d x)) (data X)), s)"
  using assms by (simp add: mad_def Let_def modified_z_def o_def)

lemma mad_unbound:
  assumes "median_fit s = Unbound"
  shows "mad X s = (Inl (AttributeError ''median_''), s)"
  using assms by (simp add: mad_def Let_def)

lemma decision_function_column:
  "xs \<noteq> [] \<Longrightarrow> decision_function (column xs) s = mad (column xs) s"
  by (simp add: decision_function_def check_array_column check_dim_column)

lemma data_column: "data (column xs) = xs"
  by (simp add: column_def)

section \<open>What a fit of a column leaves behind\<close>

lemma fit_column:
  assumes "xs \<noteq> []"
  shows "fit (column xs) s =
    (Inr (),
     s\<lparr>threshold_fit := Some (threshold s),
       median_fit := Value (nanmedian xs),
       median_diff_fit := Value (nanmedian (abs_dev (nanmedian xs) xs)),
       decision_scores_fit := Some (fitted_scores xs),
       labels_fit := Some (map (\<lambda>x. if fl_gt x (threshold s) then 1 else 0) (fitted_scores xs)),
       mu := Some (nanmean (fitted_scores xs)),
       sigma := Some (nanstd (fitted_scores xs))\<rparr>)"
  using assms
  by (simp add: fit_def check_array_column check_dim_column decision_function_column
      set_n_classes_def mad_fresh data_column process_decision_scores_def fitted_scores_def Let_def)

lemma fit_success_column:
  assumes "fit X s = (Inr (), s')"
  shows "data X \<noteq> [] \<and> X = column (data X)"
proof -
  from assms obtain X' where a: "check_array X = Inr X'"
    by (auto simp: fit_def split: sum.splits)
  with assms have "check_dim X' = Inr ()"
    by (auto simp: fit_def split: sum.splits)
  with a show ?thesis using single_column_iff by blast
qed

lemmas median_eval = nanmedian_def median_def isnan_def fl_le_def fl_sub_def abs_dev_def Let_def




section \<open>Scoring with a filled cache\<close>

lemma mad_result:
  assumes "mad X s = (Inr sc, s')"
  shows "\<exists>m d. median_fit s' = Value m \<and> median_diff_fit s' = Value d
           \<and> sc = map (\<lambda>x. nan_to_num (modified_z m d x)) (data X)"
proof (cases "median_fit s")
  case Unbound
  with assms show ?thesis by (simp add: mad_unbound)
next
  case NoneValue
  with assms show ?thesis
    by (cases "median_diff_fit s")
      (auto simp: mad_def Let_def modified_z_def o_def)
next
  case (Value m)
  with assms show ?thesis
    by (cases "median_diff_fit s")
      (auto simp: mad_def Let_def modified_z_def o_def)
qed

lemma decision_function_cached:
  assumes "median_fit s = Value m" and "median_diff_fit s = Value d"
  shows "snd (decision_function Y s) = s"
  using assms
  by (auto simp: decision_function_def mad_cached split: sum.splits)

lemma decision_function_column_cached:
  assumes "median_fit s = Value m" and "median_diff_fit s = Value d" and "ys \<noteq> []"
  shows "decision_function (column ys) s
           = (Inr (map (\<lambda>y. nan_to_num (modified_z m d y)) ys), s)"
  using assms
  by (simp add: decision_function_column mad_cached data_column)

section \<open>C1: the score formula and the worked example\<close>




section \<open>C2: scoring the fitted column again\<close>

text \<open>
  C2: whenever \<open>fit\<close> of \<open>X\<close> succeeds, \<open>decision_function\<close> of the same \<open>X\<close> on the
  fitted detector returns exactly the stored \<open>decision_scores_\<close> and leaves the detector
  as it is. The cached median and MAD are set, every later scoring call on any input
  leaves them (and the whole detector) unchanged and computes its scores from them, and
  only a new \<open>fit\<close> replaces them by the statistics of its own column.
\<close>

theorem C2_score_after_fit:
  "fit X s = (Inr (), s1) \<Longrightarrow>
     (\<exists>sc. decision_scores_fit s1 = Some sc \<and> decision_function X s1 = (Inr sc, s1))
     \<and> (\<exists>m d. median_fit s1 = Value m \<and> median_diff_fit s1 = Value d
           \<and> (\<forall>Y. snd (decision_function Y s1) = s1)
           \<and> (\<forall>ys. ys \<noteq> [] \<longrightarrow>
                 fst (decision_function (column ys) s1)
                   = Inr (map (\<lambda>y. nan_to_num (modified_z m d y)) ys)))
     \<and> (\<forall>ys. ys \<noteq> [] \<longrightarrow>
           median_fit (snd (fit (column ys) s1)) = Value (nanmedian ys)
           \<and> median_diff_fit (snd (fit (column ys) s1))
               = Value (nanmedian (abs_dev (nanmedian ys) ys)))"
proof -
  assume f: "fit X s = (Inr (), s1)"
  define xs where "xs = data X"
  from fit_success_column [OF f] have ne: "xs \<noteq> []" and X: "X = column xs"
    by (simp_all add: xs_def)
  let ?m = "nanmedian xs"
  let ?d = "nanmedian (abs_dev ?m xs)"
  from f have m: "median_fit s1 = Value ?m" and d: "median_diff_fit s1 = Value ?d"
    and sc: "decision_scores_fit s1 = Some (fitted_scores xs)"
    using fit_column [OF ne, of s] unfolding X by auto
  have again: "decision_function X s1 = (Inr (fitted_scores xs), s1)"
    unfolding X using decision_function_column_cached [OF m d ne]
    by (simp add: fitted_scores_def Let_def)
  have p1: "\<exists>sc. decision_scores_fit s1 = Some sc \<and> decision_function X s1 = (Inr sc, s1)"
    using sc again by blast
  have p2: "\<exists>m d. median_fit s1 = Value m \<and> median_diff_fit s1 = Value d
           \<and> (\<forall>Y. snd (decision_function Y s1) = s1)
           \<and> (\<forall>ys. ys \<noteq> [] \<longrightarrow>
                 fst (decision_function (column ys) s1)
                   = Inr (map (\<lambda>y. nan_to_num (modified_z m d y)) ys))"
    using m d decision_function_cached [OF m d] decision_function_column_cached [OF m d]
    by (intro exI [of _ ?m] exI [of _ ?d]) simp
  have p3: "\<forall>ys. ys \<noteq> [] \<longrightarrow>
           median_fit (snd (fit (column ys) s1)) = Value (nanmedian ys)
           \<and> median_diff_fit (snd (fit (column ys) s1))
               = Value (nanmedian (abs_dev (nanmedian ys) ys))"
    by (simp add: fit_column)
  show ?thesis
    by (intro conjI p1 p2 p3)
qed

text \<open>A use of C2 on the column \<open>[2, 4, 9]\<close> and a fresh detector with threshold 3.5.\<close>

theorem C2_score_after_fit_witness:
  "fst (fit (column [Fin 2, Fin 4, Fin 9]) (base_init (Fin 3.5) (Fin 0.1))) = Inr ()
   \<and> decision_scores_fit (snd (fit (column [Fin 2, Fin 4, Fin 9]) (base_init (Fin 3.5) (Fin 0.1))))
       = Some (fitted_scores [Fin 2, Fin 4, Fin 9])
   \<and> decision_function (column [Fin 2, Fin 4, Fin 9])
         (snd (fit (column [Fin 2, Fin 4, Fin 9]) (base_init (Fin 3.5) (Fin 0.1))))
       = (Inr (fitted_scores [Fin 2, Fin 4, Fin 9]),
          snd (fit (column [Fin 2, Fin 4, Fin 9]) (base_init (Fin 3.5) (Fin 0.1))))"
proof -
  let ?xs = "[Fin 2, Fin 4, Fin 9]"
  let ?s = "base_init (Fin 3.5) (Fin 0.1)"
  have a: "fst (fit (column ?xs) ?s) = Inr ()"
    by (simp add: fit_column)
  then have f: "fit (column ?xs) ?s = (Inr (), snd (fit (column ?xs) ?s))"
    by (simp add: prod_eq_iff)
  have b: "decision_scores_fit (snd (fit (column ?xs) ?s)) = Some (fitted_scores ?xs)"
    by (simp add: fit_column)
  from C2_score_after_fit [OF f] obtain sc
    where "decision_scores_fit (snd (fit (column ?xs) ?s)) = Some sc"
      and "decision_function (column ?xs) (snd (fit (column ?xs) ?s))
             = (Inr sc, snd (fit (column ?xs) ?s))"
    by blast
  with a b show ?thesis
    by simp
qed

section \<open>C3: what replaces NaN and the infinities\<close>

lemma max_float_pos: "0 < max_float"
  by (simp add: max_float_def)

lemma decision_function_result:
  assumes "decision_function X s = (Inr sc, s')"
  shows "\<exists>m d. median_fit s' = Value m \<and> median_diff_fit s' = Value d
           \<and> sc = map (\<lambda>x. nan_to_num (modified_z m d x)) (data X)"
proof -
  from assms obtain X' where a: "check_array X = Inr X'"
    by (auto simp: decision_function_def split: sum.splits)
  then have "X' = X"
    by (auto simp: check_array_def split: if_splits)
  with a assms have "mad X s = (Inr sc, s')"
    by (auto simp: decision_function_def split: sum.splits)
  then show ?thesis by (rule mad_result)
qed

lemma zero_mad_score:
  "nan_to_num (modified_z m (Fin 0) x) =
     (if fl_abs (fl_sub x m) = Fin 0 \<or> fl_abs (fl_sub x m) = NaN then Fin 0
      else Fin max_float)"
proof (cases "fl_abs (fl_sub x m)")
  case (Fin r)
  have "0 \<le> r"
    using Fin by (cases "fl_sub x m") auto
  with Fin show ?thesis by (auto simp: modified_z_def)
next
  case PInf
  then show ?thesis by (simp add: modified_z_def)
next
  case NInf
  then show ?thesis by (cases "fl_sub x m") auto
next
  case NaN
  then show ?thesis by (simp add: modified_z_def)
qed

text \<open>
  C3, as stated, fails on the column \<open>[1, 1, 1, 5]\<close>: the median is 1 and the MAD is 0,
  so the quotient of the last observation is \<open>+inf\<close>; \<open>np.nan_to_num\<close> turns it into the
  largest finite float64, not into 0, both in \<open>fit\<close> and in a later scoring call.
\<close>

theorem C3_counterexample:
  "median_diff_fit (snd (fit (column [Fin 1, Fin 1, Fin 1, Fin 5]) (base_init (Fin 3.5) (Fin 0.1))))
       = Value (Fin 0)
   \<and> median_fit (snd (fit (column [Fin 1, Fin 1, Fin 1, Fin 5]) (base_init (Fin 3.5) (Fin 0.1))))
       = Value (Fin 1)
   \<and> modified_z (Fin 1) (Fin 0) (Fin 5) = PInf
   \<and> decision_scores_fit
        (snd (fit (column [Fin 1, Fin 1, Fin 1, Fin 5]) (base_init (Fin 3.5) (Fin 0.1))))
       = Some [Fin 0, Fin 0, Fin 0, Fin max_float]
   \<and> fst (decision_function (column [Fin 1, Fin 1, Fin 1, Fin 5])
        (snd (fit (column [Fin 1, Fin 1, Fin 1, Fin 5]) (base_init (Fin 3.5) (Fin 0.1)))))
       = Inr [Fin 0, Fin 0, Fin 0, Fin max_float]
   \<and> Fin max_float \<noteq> Fin 0"
proof -
  let ?xs = "[Fin 1, Fin 1, Fin 1, Fin 5]"
  let ?s = "base_init (Fin 3.5) (Fin 0.1)"
  have m: "nanmedian ?xs = Fin 1"
    by (simp add: median_eval)
  have d: "nanmedian (abs_dev (Fin 1) ?xs) = Fin 0"
    by (simp add: median_eval)
  have z: "modified_z (Fin 1) (Fin 0) (Fin 5) = PInf"
    by (simp add: modified_z_def fl_sub_def)
  have fs: "fitted_scores ?xs = [Fin 0, Fin 0, Fin 0, Fin max_float]"
    unfolding fitted_scores_def Let_def m d by (simp add: modified_z_def fl_sub_def)
  have a: "median_fit (snd (fit (column ?xs) ?s)) = Value (Fin 1)"
    by (simp add: fit_column m)
  have b: "median_diff_fit (snd (fit (column ?xs) ?s)) = Value (Fin 0)"
    using d by (simp add: fit_column m)
  have c: "decision_scores_fit (snd (fit (column ?xs) ?s)) = Some [Fin 0, Fin 0, Fin 0, Fin max_float]"
    by (simp add: fit_column fs)
  have e: "fst (decision_function (column ?xs) (snd (fit (column ?xs) ?s)))
             = Inr [Fin 0, Fin 0, Fin 0, Fin max_float]"
    using decision_function_column_cached [OF a b, of ?xs]
    by (simp add: modified_z_def fl_sub_def)
  have f: "Fin max_float \<noteq> Fin 0"
    using max_float_pos by simp
  show ?thesis
    by (intro conjI a b c e f z)
qed

text \<open>
  C3 (amended): in every sequence returned by the scoring routine, an entry whose
  quotient \<open>0.6745 * diff_i / MAD\<close> is NaN is replaced with 0, one whose quotient is
  \<open>+inf\<close> with the largest finite float64 and one whose quotient is \<open>-inf\<close> with the most
  negative finite float64; finite quotients are returned as they are. In particular,
  when the MAD is 0 an observation whose deviation is 0 or NaN scores 0 and every
  other observation scores the largest finite float64, which is positive.
\<close>

theorem C3_nan_to_num_scores:
  "decision_function X s = (Inr sc, s') \<Longrightarrow>
     (\<exists>m d. median_fit s' = Value m \<and> median_diff_fit s' = Value d
        \<and> length sc = length (data X)
        \<and> (\<forall>i<length (data X).
              (modified_z m d (data X ! i) = NaN \<longrightarrow> sc ! i = Fin 0)
              \<and> (modified_z m d (data X ! i) = PInf \<longrightarrow> sc ! i = Fin max_float)
              \<and> (modified_z m d (data X ! i) = NInf \<longrightarrow> sc ! i = Fin (- max_float))
              \<and> (\<forall>z. modified_z m d (data X ! i) = Fin z \<longrightarrow> sc ! i = Fin z)
              \<and> (d = Fin 0 \<longrightarrow>
                    sc ! i = (if fl_abs (fl_sub (data X ! i) m) = Fin 0
                                 \<or> fl_abs (fl_sub (data X ! i) m) = NaN
                              then Fin 0 else Fin max_float))))
     \<and> 0 < max_float"
proof -
  assume r: "decision_function X s = (Inr sc, s')"
  from decision_function_result [OF r] obtain m d
    where m: "median_fit s' = Value m" and d: "median_diff_fit s' = Value d"
      and sc: "sc = map (\<lambda>x. nan_to_num (modified_z m d x)) (data X)"
    by blast
  have len: "length sc = length (data X)"
    by (simp add: sc)
  have each: "\<forall>i<length (data X).
              (modified_z m d (data X ! i) = NaN \<longrightarrow> sc ! i = Fin 0)
              \<and> (modified_z m d (data X ! i) = PInf \<longrightarrow> sc ! i = Fin max_float)
              \<and> (modified_z m d (data X ! i) = NInf \<longrightarrow> sc ! i = Fin (- max_float))
              \<and> (\<forall>z. modified_z m d (data X ! i) = Fin z \<longrightarrow> sc ! i = Fin z)
              \<and> (d = Fin 0 \<longrightarrow>
                    sc ! i = (if fl_abs (fl_sub (data X ! i) m) = Fin 0
                                 \<or> fl_abs (fl_sub (data X ! i) m) = NaN
                              then Fin 0 else Fin max_float))"
    by (auto simp: sc zero_mad_score)
  from m d len each have "\<exists>m d. median_fit s' = Value m \<and> median_diff_fit s' = Value d
        \<and> length sc = length (data X)
        \<and> (\<forall>i<length (data X).
              (modified_z m d (data X ! i) = NaN \<longrightarrow> sc ! i = Fin 0)
              \<and> (modified_z m d (data X ! i) = PInf \<longrightarrow> sc ! i = Fin max_float)
              \<and> (modified_z m d (data X ! i) = NInf \<longrightarrow> sc ! i = Fin (- max_float))
              \<and> (\<forall>z. modified_z m d (data X ! i) = Fin z \<longrightarrow> sc ! i = Fin z)
              \<and> (d = Fin 0 \<longrightarrow>
                    sc ! i = (if fl_abs (fl_sub (data X ! i) m) = Fin 0
                                 \<or> fl_abs (fl_sub (data X ! i) m) = NaN
                              then Fin 0 else Fin max_float)))"
    by blast
  then show ?thesis
    using max_float_pos by blast
qed

text \<open>
  A use of C3: a detector whose cache holds median 1 and MAD 0 scores the column
  \<open>[1, NaN, 1, 5]\<close>.
\<close>

theorem C3_nan_to_num_scores_witness:
  "decision_function (column [Fin 1, NaN, Fin 1, Fin 5])
       ((base_init (Fin 3.5) (Fin 0.1))\<lparr>median_fit := Value (Fin 1), median_diff_fit := Value (Fin 0)\<rparr>)
     = (Inr [Fin 0, Fin 0, Fin 0, Fin max_float],
        (base_init (Fin 3.5) (Fin 0.1))\<lparr>median_fit := Value (Fin 1), median_diff_fit := Value (Fin 0)\<rparr>)
   \<and> modified_z (Fin 1) (Fin 0) (Fin 5) = PInf
   \<and> modified_z (Fin 1) (Fin 0) NaN = NaN
   \<and> [Fin 0, Fin 0, Fin 0, Fin max_float] ! 3 = Fin max_float
   \<and> [Fin 0, Fin 0, Fin 0, Fin max_float] ! 1 = Fin 0"
proof -
  let ?X = "column [Fin 1, NaN, Fin 1, Fin 5]"
  let ?s = "(base_init (Fin 3.5) (Fin 0.1))\<lparr>median_fit := Value (Fin 1), median_diff_fit := Value (Fin 0)\<rparr>"
  let ?sc = "[Fin 0, Fin 0, Fin 0, Fin max_float]"
  have m: "median_fit ?s = Value (Fin 1)" and d: "median_diff_fit ?s = Value (Fin 0)"
    by simp_all
  have r: "decision_function ?X ?s = (Inr ?sc, ?s)"
    using decision_function_column_cached [OF m d, of "[Fin 1, NaN, Fin 1, Fin 5]"]
    by (simp add: modified_z_def fl_sub_def)
  have z3: "modified_z (Fin 1) (Fin 0) (data ?X ! 3) = PInf"
    and z1: "modified_z (Fin 1) (Fin 0) (data ?X ! 1) = NaN"
    by (simp_all add: modified_z_def fl_sub_def data_column)
  have l3: "3 < length (data ?X)" and l1: "1 < length (data ?X)"
    by (simp_all add: data_column)
  from C3_nan_to_num_scores [OF r] obtain m' d'
    where m': "median_fit ?s = Value m'" and d': "median_diff_fit ?s = Value d'"
      and all: "\<forall>i<length (data ?X).
              (modified_z m' d' (data ?X ! i) = NaN \<longrightarrow> ?sc ! i = Fin 0)
              \<and> (modified_z m' d' (data ?X ! i) = PInf \<longrightarrow> ?sc ! i = Fin max_float)"
    by blast
  from m m' d d' have eq: "m' = Fin 1" "d' = Fin 0"
    by simp_all
  from all l3 z3 have e3: "?sc ! 3 = Fin max_float"
    unfolding eq by blast
  from all l1 z1 have e1: "?sc ! 1 = Fin 0"
    unfolding eq by blast
  have z3': "modified_z (Fin 1) (Fin 0) (Fin 5) = PInf"
    and z1': "modified_z (Fin 1) (Fin 0) NaN = NaN"
    by (simp_all add: modified_z_def fl_sub_def)
  show ?thesis
    by (intro conjI r z3' z1' e3 e1)
qed

section \<open>C4: a flat one-dimensional input\<close>

text \<open>
  C4 does not hold of the code: a flat array passes \<open>check_array\<close> (called with
  \<open>ensure_2d=False\<close>) and then \<open>_check_dim\<close> reads \<open>X.shape[1]\<close> of a one-axis
  shape, which raises IndexError. So \<open>fit\<close> and \<open>decision_function\<close> of every
  non-empty flat array raise IndexError and leave the detector as it was, although the
  validator call lets flat input through and \<open>_mad\<close> reshapes to a column for it.
\<close>

theorem C4_flat_input_index_error:
  "fit (flat xs) s = (Inl (if xs = [] then ValidationError else IndexError), s)
   \<and> decision_function (flat xs) s
       = (Inl (if xs = [] then ValidationError else IndexError), s)
   \<and> fit (flat [Fin 1, Fin 2, Fin 3]) s = (Inl IndexError, s)"
  by (simp add: fit_def decision_function_def flat_def check_array_def check_dim_def)

section \<open>C5: scoring before any fit\<close>

text \<open>
  C5 does not hold of the code: \<open>__init__\<close> never assigns \<open>median_\<close>, so on a freshly
  constructed detector the test \<open>self.median_ is None\<close> of \<open>_mad\<close> raises
  AttributeError for every valid column, although the comment beside it says the
  attribute is None before \<open>fit\<close> is called.
\<close>

theorem C5_score_before_fit_attribute_error:
  "init (PyFloat t) c = Inr (base_init t c)
   \<and> median_fit (base_init t c) = Unbound
   \<and> decision_function (column xs) (base_init t c)
       = (Inl (if xs = [] then ValidationError else AttributeError ''median_''), base_init t c)
   \<and> decision_function (column [Fin 1, Fin 2, Fin 3]) (base_init (Fin 3.5) (Fin 0.1))
       = (Inl (AttributeError ''median_''), base_init (Fin 3.5) (Fin 0.1))"
proof -
  have u: "median_fit (base_init t' c') = Unbound" for t' c'
    by (simp add: base_init_def)
  have e: "decision_function (column []) s = (Inl ValidationError, s)" for s
    by (simp add: decision_function_def check_array_def column_def)
  show ?thesis
    by (simp add: init_def u e decision_function_column mad_unbound)
qed

section \<open>C6: more than one feature column\<close>

lemma digit_val_nth: "d < 10 \<Longrightarrow> digit_val (''0123456789'' ! d) = d"
proof -
  assume "d < 10"
  then have "d \<in> {0, 1, 2, 3, 4, 5, 6, 7, 8, 9}" by auto
  then show ?thesis
    by (auto simp: digit_val_def)
qed

lemma dec_value_snoc: "dec_value (cs @ [c]) = 10 * dec_value cs + digit_val c"
  by (simp add: dec_value_def)

lemma dec_value_str_nat: "dec_value (str_nat k) = k"
proof (induction k rule: str_nat.induct)
  case (1 n)
  show ?case
  proof (cases "n < 10")
    case True
    then show ?thesis
      by (subst str_nat.simps) (simp add: dec_value_def digit_val_nth)
  next
    case False
    with 1 have "dec_value (str_nat (n div 10)) = n div 10" by simp
    with False show ?thesis
      by (subst str_nat.simps) (simp add: dec_value_snoc digit_val_nth)
  qed
qed

text \<open>
  C6: for every validated two-dimensional input with \<open>k\<close> feature columns, when \<open>k\<close> is
  not 1 both \<open>fit\<close> and \<open>decision_function\<close> raise the ValueError whose message is
  built from the decimal numeral of \<open>k\<close> (which reads back as \<open>k\<close>; for 2 features the
  message says "2 Dimensions") and leave the detector as it was; when \<open>k\<close> is 1, \<open>fit\<close>
  succeeds and \<open>decision_function\<close> raises neither that error nor IndexError.
\<close>

theorem C6_dimensionality_error:
  "check_array X = Inr X' \<Longrightarrow> shape X' = [n, k] \<Longrightarrow>
     (k \<noteq> 1 \<longrightarrow>
        fit X s = (Inl (ValueError (dim_message k)), s)
        \<and> decision_function X s = (Inl (ValueError (dim_message k)), s))
     \<and> (k = 1 \<longrightarrow>
          fst (fit X s) = Inr ()
          \<and> (\<forall>msg. fst (decision_function X s) \<noteq> Inl (ValueError msg))
          \<and> fst (decision_function X s) \<noteq> Inl IndexError)
     \<and> dim_message k
          = ''MAD algorithm is just for univariate data. Got Data with '' @ str_nat k
              @ '' Dimensions.''
     \<and> dec_value (str_nat k) = k
     \<and> dim_message 2
          = ''MAD algorithm is just for univariate data. Got Data with 2 Dimensions.''"
proof -
  assume a: "check_array X = Inr X'" and sh: "shape X' = [n, k]"
  from a have X: "X' = X"
    by (auto simp: check_array_def split: if_splits)
  have p1: "k \<noteq> 1 \<longrightarrow>
        fit X s = (Inl (ValueError (dim_message k)), s)
        \<and> decision_function X s = (Inl (ValueError (dim_message k)), s)"
    using a sh by (simp add: fit_def decision_function_def check_dim_def)
  have p2: "k = 1 \<longrightarrow>
          fst (fit X s) = Inr ()
          \<and> (\<forall>msg. fst (decision_function X s) \<noteq> Inl (ValueError msg))
          \<and> fst (decision_function X s) \<noteq> Inl IndexError"
  proof
    assume k: "k = 1"
    with sh have cd: "check_dim X' = Inr ()"
      by (simp add: check_dim_def)
    with a have col: "data X \<noteq> []" "X = column (data X)"
      using single_column_iff [of X X'] by blast+
    have f: "fst (fit X s) = Inr ()"
      using fit_column [OF col(1), of s] col(2) by simp
    have df: "decision_function X s = mad X s"
      using a cd X by (simp add: decision_function_def)
    have "fst (mad X s) \<noteq> Inl (ValueError msg)" for msg
      by (cases "median_fit s"; cases "median_diff_fit s")
        (auto simp: mad_def Let_def)
    moreover have "fst (mad X s) \<noteq> Inl IndexError"
      by (cases "median_fit s"; cases "median_diff_fit s")
        (auto simp: mad_def Let_def)
    ultimately show "fst (fit X s) = Inr ()
          \<and> (\<forall>msg. fst (decision_function X s) \<noteq> Inl (ValueError msg))
          \<and> fst (decision_function X s) \<noteq> Inl IndexError"
      using f df by simp
  qed
  have p3: "dim_message k
          = ''MAD algorithm is just for univariate data. Got Data with '' @ str_nat k
              @ '' Dimensions.''"
    by (simp only: dim_message_def)
  have p5: "dim_message 2
          = ''MAD algorithm is just for univariate data. Got Data with 2 Dimensions.''"
    by (simp add: dim_message_def)
  show ?thesis
    by (intro conjI p1 p2 p3 dec_value_str_nat p5)
qed

text \<open>A use of C6 on a 2-by-2 matrix of zeros.\<close>

theorem C6_dimensionality_error_witness:
  "check_array (matrix 2 [ [Fin 0, Fin 0], [Fin 0, Fin 0]])
      = Inr (matrix 2 [ [Fin 0, Fin 0], [Fin 0, Fin 0]])
   \<and> shape (matrix 2 [ [Fin 0, Fin 0], [Fin 0, Fin 0]]) = [2, 2]
   \<and> fit (matrix 2 [ [Fin 0, Fin 0], [Fin 0, Fin 0]]) (base_init (Fin 3.5) (Fin 0.1))
       = (Inl (ValueError
            ''MAD algorithm is just for univariate data. Got Data with 2 Dimensions.''),
          base_init (Fin 3.5) (Fin 0.1))
   \<and> decision_function (matrix 2 [ [Fin 0, Fin 0], [Fin 0, Fin 0]]) (base_init (Fin 3.5) (Fin 0.1))
       = (Inl (ValueError
            ''MAD algorithm is just for univariate data. Got Data with 2 Dimensions.''),
          base_init (Fin 3.5) (Fin 0.1))"
proof -
  let ?X = "matrix 2 [ [Fin 0, Fin 0], [Fin 0, Fin 0]]"
  have a: "check_array ?X = Inr ?X"
    by (simp add: check_array_def matrix_def)
  have sh: "shape ?X = [2, 2]"
    by (simp add: matrix_def)
  have k: "(2::nat) \<noteq> 1" by simp
  from C6_dimensionality_error [OF a sh, of "base_init (Fin 3.5) (Fin 0.1)"] k
  have "fit ?X (base_init (Fin 3.5) (Fin 0.1))
          = (Inl (ValueError (dim_message 2)), base_init (Fin 3.5) (Fin 0.1))
        \<and> decision_function ?X (base_init (Fin 3.5) (Fin 0.1))
          = (Inl (ValueError (dim_message 2)), base_init (Fin 3.5) (Fin 0.1))"
    and "dim_message 2
          = ''MAD algorithm is just for univariate data. Got Data with 2 Dimensions.''"
    by blast+
  with a sh show ?thesis
    by simp
qed

section \<open>C7: a constant column\<close>




lemma self_deviation: "fl_abs (fl_sub v v) = (case v of Fin c \<Rightarrow> Fin 0 | PInf \<Rightarrow> NaN | NInf \<Rightarrow> NaN | NaN \<Rightarrow> NaN)"
  by (cases v) (simp_all add: fl_sub_def)





section \<open>C8: labels against the threshold\<close>





section \<open>C9: what a failed fit leaves behind\<close>

lemma fit_failure:
  assumes "fit X s = (Inl e, s')"
  shows "s' = s \<and> (e = ValidationError \<or> e = IndexError
                      \<or> (\<exists>k. k \<noteq> 1 \<and> e = ValueError (dim_message k)))"
proof (cases "check_array X")
  case (Inl e1)
  then have "e1 = ValidationError"
    by (auto simp: check_array_def split: if_splits)
  with Inl assms show ?thesis
    by (auto simp: fit_def)
next
  case (Inr X')
  show ?thesis
  proof (cases "check_dim X'")
    case (Inl e2)
    then have "e2 = IndexError \<or> (\<exists>k. k \<noteq> 1 \<and> e2 = ValueError (dim_message k))"
      by (auto simp: check_dim_def split: list.splits if_splits)
    with Inl Inr assms show ?thesis
      by (auto simp: fit_def)
  next
    case (Inr u)
    with \<open>check_array X = Inr X'\<close> have "data X \<noteq> []" and "X = column (data X)"
      using single_column_iff [of X X'] by auto
    then have "fst (fit X s) = Inr ()"
      using fit_column [of "data X" s] by simp
    with assms show ?thesis by simp
  qed
qed




section \<open>C10: scores are finite and not negative\<close>

lemma nonneg_or_nan_abs: "nonneg_or_nan (fl_abs x)"
  by (cases x) (simp_all add: nonneg_or_nan_def)

lemma median_nonneg:
  assumes "xs \<noteq> []" and "list_all (\<lambda>x. nonneg_or_nan x \<and> x \<noteq> NaN) xs"
  shows "nonneg_or_nan (median xs)"
proof -
  let ?s = "sort_fl xs"
  let ?n = "length ?s"
  have n: "0 < ?n"
    using assms(1) by (simp add: length_sort_fl)
  have mem: "nonneg_or_nan (?s ! i) \<and> ?s ! i \<noteq> NaN" if "i < ?n" for i
  proof -
    from that have "?s ! i \<in> set xs"
      using set_sort_fl [of xs] nth_mem [of i ?s] by simp
    with assms(2) show ?thesis
      by (simp add: list_all_iff)
  qed
  have mean: "nonneg_or_nan (fl_div (fl_add a b) (Fin 2))"
    if "nonneg_or_nan a \<and> a \<noteq> NaN" and "nonneg_or_nan b \<and> b \<noteq> NaN" for a b
    using that by (cases a; cases b) (simp_all add: nonneg_or_nan_def)
  have i1: "?n div 2 < ?n" and i2: "?n div 2 - 1 < ?n"
    using n by arith+
  show ?thesis
    using mem [OF i1] mean [OF mem [OF i2] mem [OF i1]]
    by (simp add: median_def Let_def)
qed

lemma nanmedian_nonneg:
  assumes "list_all nonneg_or_nan xs"
  shows "nonneg_or_nan (nanmedian xs)"
proof (cases "filter (\<lambda>x. \<not> isnan x) xs = []")
  case True
  then show ?thesis
    by (simp add: nanmedian_def nonneg_or_nan_def)
next
  case False
  have "list_all (\<lambda>x. nonneg_or_nan x \<and> x \<noteq> NaN) (filter (\<lambda>x. \<not> isnan x) xs)"
    using assms by (auto simp: list_all_iff isnan_def)
  from median_nonneg [OF False this] False show ?thesis
    by (simp add: nanmedian_def Let_def)
qed

lemma nanmedian_abs_dev_nonneg: "nonneg_or_nan (nanmedian (abs_dev m xs))"
  by (rule nanmedian_nonneg) (simp add: abs_dev_def list_all_iff nonneg_or_nan_abs)

lemma score_fin_nonneg:
  assumes "nonneg_or_nan d"
  shows "fin_nonneg (nan_to_num (modified_z m d x))"
proof -
  have a: "nonneg_or_nan (fl_abs (fl_sub x m))"
    by (rule nonneg_or_nan_abs)
  have mf: "0 \<le> max_float"
    using max_float_pos by simp
  show ?thesis
    using a assms mf unfolding modified_z_def
    by (cases "fl_abs (fl_sub x m)"; cases d)
      (auto simp: nonneg_or_nan_def fin_nonneg_def)
qed

lemma mad_cache_ok:
  assumes "cache_ok s"
  shows "cache_ok (snd (mad X s))"
  using assms
  by (cases "median_fit s"; cases "median_diff_fit s")
    (auto simp: mad_def Let_def cache_ok_def nanmedian_abs_dev_nonneg [unfolded abs_dev_def])

lemma decision_function_cache_ok:
  assumes "cache_ok s"
  shows "cache_ok (snd (decision_function X s))"
  using assms mad_cache_ok
  by (auto simp: decision_function_def split: sum.splits)

lemma fit_cache_ok:
  assumes "cache_ok s"
  shows "cache_ok (snd (fit X s))"
proof (cases "fst (fit X s)")
  case (Inl e)
  then have "fit X s = (Inl e, snd (fit X s))"
    by (simp add: prod_eq_iff)
  from fit_failure [OF this] assms show ?thesis by simp
next
  case (Inr u)
  then have "fit X s = (Inr (), snd (fit X s))"
    by (simp add: prod_eq_iff)
  from fit_success_column [OF this] have ne: "data X \<noteq> []" and X: "X = column (data X)"
    by simp_all
  show ?thesis
    using fit_column [OF ne, of s] X
    by (simp add: cache_ok_def nanmedian_abs_dev_nonneg)
qed

lemma reachable_cache_ok: "reachable s \<Longrightarrow> cache_ok s"
proof (induction rule: reachable.induct)
  case (r_init thr c s)
  then show ?case
    by (auto simp: init_def base_init_def cache_ok_def split: pyobj.splits)
next
  case (r_fit s X)
  then show ?case by (simp add: fit_cache_ok)
next
  case (r_score s X)
  then show ?case by (simp add: decision_function_cache_ok)
qed

lemma cache_ok_scores:
  assumes "cache_ok s" and "decision_function X s = (Inr sc, s')"
  shows "list_all fin_nonneg sc"
proof -
  from decision_function_result [OF assms(2)] obtain m d
    where d: "median_diff_fit s' = Value d"
      and sc: "sc = map (\<lambda>x. nan_to_num (modified_z m d x)) (data X)"
    by blast
  from decision_function_cache_ok [OF assms(1), of X] assms(2) have "cache_ok s'"
    by simp
  with d have "nonneg_or_nan d"
    by (simp add: cache_ok_def)
  then show ?thesis
    by (simp add: sc list_all_iff score_fin_nonneg)
qed

text \<open>
  C10: on every detector that construction, \<open>fit\<close> and \<open>decision_function\<close> can
  produce, every entry of a sequence returned by \<open>decision_function\<close>, and every entry
  of the decision scores stored by a successful \<open>fit\<close>, is a finite number greater
  than or equal to 0.
\<close>

theorem C10_scores_finite_nonneg:
  "reachable s \<Longrightarrow>
     (\<forall>sc s'. decision_function X s = (Inr sc, s') \<longrightarrow> list_all fin_nonneg sc)
     \<and> (\<forall>s'. fit X s = (Inr (), s') \<longrightarrow>
           (\<exists>sc. decision_scores_fit s' = Some sc \<and> list_all fin_nonneg sc))"
proof -
  assume r: "reachable s"
  then have ok: "cache_ok s" by (rule reachable_cache_ok)
  have p1: "\<forall>sc s'. decision_function X s = (Inr sc, s') \<longrightarrow> list_all fin_nonneg sc"
    using cache_ok_scores [OF ok] by blast
  have p2: "\<forall>s'. fit X s = (Inr (), s') \<longrightarrow>
           (\<exists>sc. decision_scores_fit s' = Some sc \<and> list_all fin_nonneg sc)"
  proof (intro allI impI)
    fix s'
    assume f: "fit X s = (Inr (), s')"
    from fit_success_column [OF f] have ne: "data X \<noteq> []" and X: "X = column (data X)"
      by simp_all
    from f have sc: "decision_scores_fit s' = Some (fitted_scores (data X))"
      using fit_column [OF ne, of s] X by auto
    have "list_all fin_nonneg (fitted_scores (data X))"
      by (simp add: fitted_scores_def Let_def list_all_iff score_fin_nonneg
          nanmedian_abs_dev_nonneg)
    with sc show "\<exists>sc. decision_scores_fit s' = Some sc \<and> list_all fin_nonneg sc"
      by blast
  qed
  show ?thesis
    by (intro conjI p1 p2)
qed

text \<open>
  A use of C10: the detector fitted on \<open>[1, 1, 1, 5]\<close> (MAD 0) scores the column
  \<open>[7, NaN, inf]\<close>.
\<close>

theorem C10_scores_finite_nonneg_witness:
  "reachable (snd (fit (column [Fin 1, Fin 1, Fin 1, Fin 5]) (base_init (Fin 3.5) (Fin 0.1))))
   \<and> decision_function (column [Fin 7, NaN, PInf])
        (snd (fit (column [Fin 1, Fin 1, Fin 1, Fin 5]) (base_init (Fin 3.5) (Fin 0.1))))
       = (Inr [Fin max_float, Fin 0, Fin max_float],
          snd (fit (column [Fin 1, Fin 1, Fin 1, Fin 5]) (base_init (Fin 3.5) (Fin 0.1))))
   \<and> list_all fin_nonneg [Fin max_float, Fin 0, Fin max_float]"
proof -
  let ?init = "base_init (Fin 3.5) (Fin 0.1)"
  let ?st = "snd (fit (column [Fin 1, Fin 1, Fin 1, Fin 5]) ?init)"
  have "init (PyFloat (Fin 3.5)) (Fin 0.1) = Inr ?init"
    by (simp add: init_def)
  then have "reachable ?init" by (rule r_init)
  then have r: "reachable ?st" by (rule r_fit)
  have m: "median_fit ?st = Value (Fin 1)"
    by (simp add: fit_column median_eval)
  have d: "median_diff_fit ?st = Value (Fin 0)"
    by (simp add: fit_column median_eval)
  have df: "decision_function (column [Fin 7, NaN, PInf]) ?st
              = (Inr [Fin max_float, Fin 0, Fin max_float], ?st)"
    using decision_function_column_cached [OF m d, of "[Fin 7, NaN, PInf]"]
    by (simp add: modified_z_def fl_sub_def)
  from C10_scores_finite_nonneg [OF r, of "column [Fin 7, NaN, PInf]"] df
  have "list_all fin_nonneg [Fin max_float, Fin 0, Fin max_float]"
    by blast
  with r df show ?thesis
    by blast
qed

end
